theory Spec2Isabelle
  imports Complex_Main "HOL-Library.Log_Nat"
begin

section \<open>Values of the inflammation table\<close>

text \<open>
  An entry of the inflammation table is a NumPy float64. The special values that the
  normalisation policy is written for are kept apart: not-a-number and the two infinities.
  A finite entry is modelled by the real number it denotes, and the two IEEE zeros are one
  value, \<open>Fin 0\<close>. Comparisons of two float64 values are exact in the code as they are
  here. The arithmetic on finite values is exact here, while float64 rounds to nearest and
  overflows; so every statement below that involves arithmetic is either an order fact
  that rounding to nearest preserves, or is made at values where each intermediate result
  is a float64 and the code computes it exactly.
\<close>

datatype fl = NaN | NInf | Fin real | PInf

fun isnan :: "fl \<Rightarrow> bool" where
  "isnan NaN = True"
| "isnan _ = False"

text \<open>Comparison \<open>a < b\<close>: every comparison with not-a-number is false.\<close>

fun fl_lt :: "fl \<Rightarrow> fl \<Rightarrow> bool" where
  "fl_lt NaN _ = False"
| "fl_lt _ NaN = False"
| "fl_lt NInf NInf = False"
| "fl_lt NInf _ = True"
| "fl_lt (Fin x) (Fin y) = (x < y)"
| "fl_lt (Fin x) PInf = True"
| "fl_lt (Fin x) NInf = False"
| "fl_lt PInf _ = False"

definition fl_gt :: "fl \<Rightarrow> fl \<Rightarrow> bool" where
  "fl_gt a b = fl_lt b a"

text \<open>\<open>np.fmax\<close> ignores a not-a-number operand; \<open>np.maximum\<close> and \<open>np.minimum\<close> propagate it.\<close>

fun fmax :: "fl \<Rightarrow> fl \<Rightarrow> fl" where
  "fmax NaN b = b"
| "fmax a NaN = a"
| "fmax a b = (if fl_lt a b then b else a)"






text \<open>The sign of a value that is not not-a-number: \<open>-1\<close>, \<open>0\<close> or \<open>1\<close>.\<close>

fun fl_sgn :: "fl \<Rightarrow> int" where
  "fl_sgn NaN = 0"
| "fl_sgn NInf = - 1"
| "fl_sgn (Fin x) = (if x < 0 then - 1 else if x = 0 then 0 else 1)"
| "fl_sgn PInf = 1"

definition signed_inf :: "int \<Rightarrow> fl" where
  "signed_inf s = (if s < 0 then NInf else PInf)"


text \<open>
  Division as NumPy performs it under \<open>np.errstate(invalid='ignore', divide='ignore')\<close>:
  nothing is raised, \<open>0 / 0\<close> and \<open>inf / inf\<close> are not-a-number, a non-zero value over zero is
  an infinity, a finite value over an infinity is zero.
\<close>

fun fl_div :: "fl \<Rightarrow> fl \<Rightarrow> fl" where
  "fl_div NaN _ = NaN"
| "fl_div _ NaN = NaN"
| "fl_div (Fin x) (Fin y) =
     (if y = 0 then (if x = 0 then NaN else signed_inf (fl_sgn (Fin x))) else Fin (x / y))"
| "fl_div (Fin x) _ = Fin 0"
| "fl_div a (Fin y) = signed_inf (if y < 0 then - fl_sgn a else fl_sgn a)"
| "fl_div _ _ = NaN"


section \<open>Errors and arrays\<close>

text \<open>
  An exception is a value: its class and its message. The messages of the two exceptions
  that \<open>patient_normalise\<close> raises itself are the literals of the source; the others are
  raised by Python and NumPy, and their messages are given in words.
\<close>

datatype exc = ValueError | TypeError | IndexError | OverflowError | OtherException string

type_synonym py_error = "exc \<times> string"

text \<open>
  A two-dimensional \<open>ndarray\<close> of shape \<open>(length (cells a), ncols a)\<close>. The number of columns
  is kept beside the rows because an array with no rows still has one. Every array that
  NumPy builds is rectangular: \<open>rect\<close>.
\<close>

record ndarray =
  ncols :: nat
  cells :: "fl list list"

definition nrows :: "ndarray \<Rightarrow> nat" where
  "nrows a = length (cells a)"

definition rect :: "ndarray \<Rightarrow> bool" where
  "rect a = list_all (\<lambda>r. length r = ncols a) (cells a)"

definition shape :: "ndarray \<Rightarrow> nat \<times> nat" where
  "shape a = (nrows a, ncols a)"

text \<open>
  What a caller can pass as \<open>data\<close>: an array, a real number (a Python int or float, a
  NumPy scalar), a list, a string,
  \<open>None\<close>, or any other object. Only the first is an instance of \<open>np.ndarray\<close>. All that
  \<open>patient_normalise\<close> does with an object that is not an array is to evaluate
  \<open>np.any(data < 0)\<close> as a condition, and what that does is up to the object's own
  comparison: it raises an exception of some class, or it is true, or it is false. An
  object of any other kind is therefore given by that outcome (\<open>PyObject\<close>): a
  \<open>Decimal\<close> that is not a number raises \<open>InvalidOperation\<close>, a container that compares
  elementwise and holds a negative entry is true.
\<close>

datatype pyobj =
  NdArray ndarray | PyNumber fl | PyList "pyobj list" | PyStr string | PyNone
  | PyObject "py_error + bool"

fun isinstance_ndarray :: "pyobj \<Rightarrow> bool" where
  "isinstance_ndarray (NdArray _) = True"
| "isinstance_ndarray _ = False"

section \<open>The statistics engine\<close>

subsection \<open>patient_normalise\<close>

text \<open>
  \<open>np.any(data < 0)\<close>. On an array the comparison is elementwise; on a number it is one
  boolean; a list, a string and \<open>None\<close> do not compare with an integer and Python raises
  \<open>TypeError\<close>; on any other object it is the outcome that the object brings.
\<close>

fun any_lt_zero :: "pyobj \<Rightarrow> py_error + bool" where
  "any_lt_zero (NdArray a) = Inr (list_ex (list_ex (\<lambda>x. fl_lt x (Fin 0))) (cells a))"
| "any_lt_zero (PyNumber x) = Inr (fl_lt x (Fin 0))"
| "any_lt_zero (PyList _) =
     Inl (TypeError, ''comparison not supported between instances of list and int'')"
| "any_lt_zero (PyStr _) =
     Inl (TypeError, ''comparison not supported between instances of str and int'')"
| "any_lt_zero PyNone =
     Inl (TypeError, ''comparison not supported between instances of NoneType and int'')"
| "any_lt_zero (PyObject outcome) = outcome"

text \<open>
  \<open>np.nanmax(data, axis=1)\<close> is \<open>np.fmax.reduce\<close> along each row. \<open>fmax\<close> has no identity,
  so a reduction over an axis of length zero raises \<open>ValueError\<close>. A row of nothing but
  not-a-number reduces to not-a-number (NumPy warns, it does not raise). With at least one
  column every row of a rectangular array has a first entry, where the reduction starts.
\<close>

definition fmax_reduce :: "fl list \<Rightarrow> fl" where
  "fmax_reduce r = foldl fmax (hd r) (tl r)"

definition nanmax_axis1 :: "ndarray \<Rightarrow> py_error + fl list" where
  "nanmax_axis1 a =
     (if ncols a = 0
      then Inl (ValueError, ''zero-size array to reduction operation fmax which has no identity'')
      else Inr (map fmax_reduce (cells a)))"

text \<open>\<open>data / max_val[:, np.newaxis]\<close>: row \<open>i\<close> of the table over entry \<open>i\<close> of the maxima.\<close>

definition divide_rows :: "ndarray \<Rightarrow> fl list \<Rightarrow> ndarray" where
  "divide_rows a ms = \<lparr>ncols = ncols a, cells = map2 (\<lambda>r m. map (\<lambda>x. fl_div x m) r) (cells a) ms\<rparr>"

text \<open>\<open>normalised[np.isnan(normalised)] = 0\<close> and \<open>normalised[normalised < 0] = 0\<close>.\<close>

definition set_where :: "(fl \<Rightarrow> bool) \<Rightarrow> fl \<Rightarrow> ndarray \<Rightarrow> ndarray" where
  "set_where p v a = a\<lparr>cells := map (map (\<lambda>x. if p x then v else x)) (cells a)\<rparr>"

definition patient_normalise :: "pyobj \<Rightarrow> py_error + ndarray" where
  "patient_normalise data =
     (case any_lt_zero data of
        Inl e \<Rightarrow> Inl e
      | Inr True \<Rightarrow> Inl (ValueError, ''Inflammation values should not be negative'')
      | Inr False \<Rightarrow>
          (case data of
             NdArray a \<Rightarrow>
               (case nanmax_axis1 a of
                  Inl e \<Rightarrow> Inl e
                | Inr max_val \<Rightarrow>
                    Inr (set_where (\<lambda>x. fl_lt x (Fin 0)) (Fin 0)
                          (set_where isnan (Fin 0) (divide_rows a max_val))))
           | _ \<Rightarrow> Inl (TypeError, ''Inflammation data should be an Numpy nd-array'')))"

text \<open>
  The same body with the arrays as objects in a store (an address is an index into the
  store), to say which array each statement writes. \<open>data\<close> is the address of an
  \<open>ndarray\<close>. The division allocates a new array, \<open>normalised\<close>; the two masked assignments
  update that array in place. The maxima and the masks are temporaries that are never
  written to after they are built.
\<close>

type_synonym store = "ndarray list"

definition patient_normalise_st :: "store \<Rightarrow> nat \<Rightarrow> (py_error + nat) \<times> store" where
  "patient_normalise_st h data =
     (if list_ex (list_ex (\<lambda>x. fl_lt x (Fin 0))) (cells (h ! data))
      then (Inl (ValueError, ''Inflammation values should not be negative''), h)
      else
        (case nanmax_axis1 (h ! data) of
           Inl e \<Rightarrow> (Inl e, h)
         | Inr max_val \<Rightarrow>
             (let normalised = length h;
                  h1 = h @ [divide_rows (h ! data) max_val];
                  h2 = h1[normalised := set_where isnan (Fin 0) (h1 ! normalised)];
                  h3 = h2[normalised := set_where (\<lambda>x. fl_lt x (Fin 0)) (Fin 0) (h2 ! normalised)]
              in (Inr normalised, h3))))"

subsection \<open>Daily statistics\<close>









subsection \<open>daily_above_threshold\<close>

text \<open>\<open>data[patient_nr]\<close>: a negative index counts from the last row.\<close>

definition getitem :: "ndarray \<Rightarrow> int \<Rightarrow> py_error + fl list" where
  "getitem a i =
     (let n = int (nrows a); j = (if i < 0 then i + n else i)
      in if 0 \<le> j \<and> j < n then Inr (cells a ! nat j)
         else Inl (IndexError, ''index is out of bounds for axis 0''))"

text \<open>\<open>functools.reduce\<close> with no initial value: the first item starts the fold.\<close>

fun reduce :: "(int \<Rightarrow> int \<Rightarrow> int) \<Rightarrow> int list \<Rightarrow> py_error + int" where
  "reduce f [] = Inl (TypeError, ''reduce() of empty iterable with no initial value'')"
| "reduce f (x # xs) = Inr (foldl f x xs)"

text \<open>
  The threshold is a Python number: a float, which is a float64 already, or an int of any
  size. In \<open>x > threshold\<close> the entry \<open>x\<close> is a float64, and an int threshold is converted
  to float64 before the two are compared: to the nearest float64, a tie going to the one
  with the even significand, and with \<open>OverflowError\<close> when the result would not be finite.
  An int of magnitude up to \<open>2 ^ 53\<close> is a float64 itself; a larger one has \<open>bitlen\<close> bits,
  of which the significand keeps 53.
\<close>

datatype pynum = PyInt int | PyFloat fl

definition float64_of_int :: "int \<Rightarrow> py_error + fl" where
  "float64_of_int n =
     (let a = \<bar>n\<bar> in
      if a \<le> 2 ^ 53 then Inr (Fin (of_int n))
      else
        (let k = nat (bitlen a - 53);
             q = a div 2 ^ k;
             r = a mod 2 ^ k;
             h = 2 ^ (k - 1);
             q' = (if h < r \<or> (r = h \<and> odd q) then q + 1 else q);
             v = q' * 2 ^ k
         in if 2 ^ 1024 \<le> v then Inl (OverflowError, ''int too large to convert to float'')
            else Inr (Fin (of_int (sgn n * v)))))"

fun as_float64 :: "pynum \<Rightarrow> py_error + fl" where
  "as_float64 (PyFloat f) = Inr f"
| "as_float64 (PyInt n) = float64_of_int n"

text \<open>The value of the threshold as the caller wrote it, before any conversion.\<close>

fun exact_value :: "pynum \<Rightarrow> fl" where
  "exact_value (PyFloat f) = f"
| "exact_value (PyInt n) = Fin (of_int n)"

text \<open>\<open>x > threshold\<close> for one entry.\<close>

definition gt :: "fl \<Rightarrow> pynum \<Rightarrow> py_error + bool" where
  "gt x threshold =
     (case as_float64 threshold of Inl e \<Rightarrow> Inl e | Inr v \<Rightarrow> Inr (fl_gt x v))"

text \<open>
  \<open>list(map(f, row))\<close> calls \<open>f\<close> on one entry after the other, and the first exception
  ends it; on an empty row \<open>f\<close> is not called.
\<close>

fun list_map :: "('a \<Rightarrow> py_error + 'b) \<Rightarrow> 'a list \<Rightarrow> py_error + 'b list" where
  "list_map f [] = Inr []"
| "list_map f (x # xs) =
     (case f x of
        Inl e \<Rightarrow> Inl e
      | Inr y \<Rightarrow> (case list_map f xs of Inl e \<Rightarrow> Inl e | Inr ys \<Rightarrow> Inr (y # ys)))"

definition daily_above_threshold :: "ndarray \<Rightarrow> int \<Rightarrow> pynum \<Rightarrow> py_error + int" where
  "daily_above_threshold data patient_nr threshold =
     (case getitem data patient_nr of
        Inl e \<Rightarrow> Inl e
      | Inr row \<Rightarrow>
          (case list_map (\<lambda>x. gt x threshold) row of
             Inl e \<Rightarrow> Inl e
           | Inr bools \<Rightarrow>
               (let int_bools = map (\<lambda>x. if x then 1 else 0) bools
                in reduce (\<lambda>x y. x + y) int_bools)))"

section \<open>The record model\<close>

record 'v observation =
  day :: int
  "value" :: 'v

record person =
  name :: string

record 'v patient = person +
  observations :: "'v observation list"

record doctor = person +
  patients :: "nat list"

definition Patient :: "string \<Rightarrow> 'v patient" where
  "Patient n = \<lparr>name = n, observations = []\<rparr>"

definition Doctor :: "string \<Rightarrow> doctor" where
  "Doctor n = \<lparr>name = n, patients = []\<rparr>"

text \<open>
  \<open>Patient.add_observation\<close>. \<open>self.observations[-1]\<close> raises \<open>IndexError\<close> exactly when the
  list is empty, and the handler sets the day to \<open>0\<close>. The method returns the observation
  and leaves the patient with it appended.
\<close>

definition add_observation ::
  "'v patient \<Rightarrow> 'v \<Rightarrow> int option \<Rightarrow> 'v observation \<times> 'v patient" where
  "add_observation self v day_arg =
     (let d = (case day_arg of
                 None \<Rightarrow> (case observations self of
                             [] \<Rightarrow> 0
                           | _ \<Rightarrow> day (last (observations self)) + 1)
               | Some d \<Rightarrow> d);
          new_observation = \<lparr>day = d, value = v\<rparr>
      in (new_observation, self\<lparr>observations := observations self @ [new_observation]\<rparr>))"

text \<open>
  \<open>Doctor.add_patient\<close>. \<open>Patient\<close> defines no \<open>__eq__\<close>, so \<open>not in\<close> compares object
  identities: the doctor's list holds addresses of \<open>Patient\<close> objects, and the objects live
  in \<open>heap\<close>. The argument is an instance of \<open>Patient\<close> (its address) or anything else,
  which becomes the name of a new \<open>Patient\<close> at a fresh address. The method returns the
  patient, or \<open>None\<close> after printing one line.
\<close>

record 'v world =
  heap :: "'v patient list"
  stdout :: "string list"

datatype arg = Instance nat | Other string

definition str :: "'v world \<Rightarrow> arg \<Rightarrow> string" where
  "str w a = (case a of Instance r \<Rightarrow> name (heap w ! r) | Other n \<Rightarrow> n)"

definition add_patient ::
  "doctor \<Rightarrow> arg \<Rightarrow> 'v world \<Rightarrow> (nat option \<times> doctor) \<times> 'v world" where
  "add_patient self patient w =
     (let (new_patient, w1) =
            (case patient of
               Instance r \<Rightarrow> (r, w)
             | Other n \<Rightarrow> (length (heap w), w\<lparr>heap := heap w @ [Patient n]\<rparr>))
      in if new_patient \<notin> set (patients self)
         then ((Some new_patient, self\<lparr>patients := patients self @ [new_patient]\<rparr>), w1)
         else ((None, self),
               w1\<lparr>stdout := stdout w1 @
                  [''Patient with name '' @ str w1 patient @ '' already in Doctor '' @
                   name self @ '''s list.'']\<rparr>))"

section \<open>Notions used in the statements\<close>

text \<open>The table has no negative entry: no entry compares below zero.\<close>

definition no_negative :: "ndarray \<Rightarrow> bool" where
  "no_negative a = list_all (list_all (\<lambda>x. \<not> fl_lt x (Fin 0))) (cells a)"

text \<open>What the two masked assignments of \<open>patient_normalise\<close> do to one entry.\<close>

definition repair :: "fl \<Rightarrow> fl" where
  "repair x = (let y = (if isnan x then Fin 0 else x) in if fl_lt y (Fin 0) then Fin 0 else y)"

text \<open>\<open>below c x\<close>: the entry \<open>x\<close> does not exceed the finite bound \<open>c\<close>, or is not-a-number.\<close>

fun below :: "real \<Rightarrow> fl \<Rightarrow> bool" where
  "below c NaN = True"
| "below c NInf = True"
| "below c (Fin v) = (v \<le> c)"
| "below c PInf = False"

text \<open>
  The state a doctor is in after any number of calls of \<open>add_patient\<close>: no address twice,
  and every address is that of an object of the heap. An argument is well-formed when an
  instance is an object of the heap.
\<close>

definition doctor_inv :: "doctor \<Rightarrow> 'v world \<Rightarrow> bool" where
  "doctor_inv d w = (distinct (patients d) \<and> list_all (\<lambda>r. r < length (heap w)) (patients d))"

definition arg_ok :: "arg \<Rightarrow> 'v world \<Rightarrow> bool" where
  "arg_ok a w = (case a of Instance r \<Rightarrow> r < length (heap w) | Other n \<Rightarrow> True)"

text \<open>Tables and a heap for the concrete instances.\<close>

definition table1 :: ndarray where
  "table1 = \<lparr>ncols = 2, cells = [[Fin 1, Fin 2], [Fin 0, NaN]]\<rparr>"

definition table2 :: ndarray where
  "table2 = \<lparr>ncols = 2, cells = [[Fin 0, Fin 0], [NaN, NaN], [Fin 1, Fin 4]]\<rparr>"

definition table3 :: ndarray where
  "table3 = \<lparr>ncols = 2, cells = [[Fin 1, Fin (- 1)], [Fin 2, Fin 3]]\<rparr>"


definition table5 :: ndarray where
  "table5 = \<lparr>ncols = 3, cells = [[Fin 1, Fin 5, Fin 9], [Fin 2, Fin 2, Fin 2]]\<rparr>"

definition world1 :: "unit world" where
  "world1 = \<lparr>heap = [Patient ''Alice''], stdout = []\<rparr>"

section \<open>Normalisation\<close>

subsection \<open>The value that is returned\<close>

lemma map2_self: "map2 f xs (map g xs) = map (\<lambda>x. f x (g x)) xs"
  by (induction xs) auto

lemma rect_row: "rect a \<Longrightarrow> i < nrows a \<Longrightarrow> length (cells a ! i) = ncols a"
  by (simp add: rect_def nrows_def list_all_length)

lemma no_negative_entry:
  "no_negative a \<Longrightarrow> i < nrows a \<Longrightarrow> x \<in> set (cells a ! i) \<Longrightarrow> \<not> fl_lt x (Fin 0)"
  by (simp add: no_negative_def nrows_def list_all_length in_set_conv_nth) blast

lemma divide_rows_nanmax:
  "cells (divide_rows a (map fmax_reduce (cells a))) =
     map (\<lambda>r. map (\<lambda>x. fl_div x (fmax_reduce r)) r) (cells a)"
  by (simp add: divide_rows_def map2_self)

lemma patient_normalise_value:
  assumes "ncols a \<noteq> 0" "no_negative a"
  shows "patient_normalise (NdArray a) =
    Inr \<lparr>ncols = ncols a,
         cells = map (\<lambda>r. map (\<lambda>x. repair (fl_div x (fmax_reduce r))) r) (cells a)\<rparr>"
proof -
  have "\<not> list_ex (list_ex (\<lambda>x. fl_lt x (Fin 0))) (cells a)"
    using assms(2) by (simp add: no_negative_def list_all_iff list_ex_iff)
  then show ?thesis using assms(1)
    by (simp add: patient_normalise_def nanmax_axis1_def divide_rows_def
      set_where_def map2_self repair_def Let_def o_def)
qed

subsection \<open>The maximum of a row bounds its entries\<close>

lemma below_fmax: "below c (fmax a b) \<Longrightarrow> below c a \<and> below c b"
  by (cases a; cases b) (auto split: if_splits)

lemma below_foldl_fmax: "below c (foldl fmax a xs) \<Longrightarrow> below c a \<and> (\<forall>x\<in>set xs. below c x)"
proof (induction xs arbitrary: a)
  case Nil
  then show ?case by simp
next
  case (Cons y ys)
  have "below c (foldl fmax (fmax a y) ys)" using Cons.prems by simp
  then have "below c (fmax a y) \<and> (\<forall>x\<in>set ys. below c x)" by (rule Cons.IH)
  moreover have "below c a \<and> below c y" using calculation below_fmax by blast
  ultimately show ?case by simp
qed

lemma below_fmax_reduce:
  assumes "fmax_reduce r = Fin c" "r \<noteq> []" "x \<in> set r"
  shows "below c x"
proof -
  obtain a xs where r: "r = a # xs" using assms(2) by (cases r) auto
  have "below c (foldl fmax a xs)" using assms(1) r by (simp add: fmax_reduce_def)
  then have "below c a \<and> (\<forall>x\<in>set xs. below c x)" by (rule below_foldl_fmax)
  then show ?thesis using assms(3) r by auto
qed

lemma repair_unit:
  assumes "below c x" "\<not> fl_lt x (Fin 0)" "0 < c"
  shows "\<exists>v. repair (fl_div x (Fin c)) = Fin v \<and> 0 \<le> v \<and> v \<le> 1"
  using assms by (cases x) (auto simp: repair_def)

text \<open>
  Claim C1, as the code has it. For every rectangular table with at least one column and no
  negative entry, \<open>patient_normalise\<close> returns a table of the same shape, and every entry
  of a row whose maximum (the one \<open>np.nanmax\<close> computes) is finite and positive lies in the
  closed range from 0 to 1. The claim as worded also covers tables with no column, where
  the reduction raises, as the instance after the next theorem shows.
\<close>

theorem patient_normalise_shape_range:
  assumes "rect a" "ncols a \<noteq> 0" "no_negative a"
  shows "\<exists>n. patient_normalise (NdArray a) = Inr n \<and> shape n = shape a \<and> rect n \<and>
     (\<forall>i<nrows a. \<forall>c. fmax_reduce (cells a ! i) = Fin c \<and> 0 < c \<longrightarrow>
        (\<forall>j<ncols a. \<exists>v. cells n ! i ! j = Fin v \<and> 0 \<le> v \<and> v \<le> 1))"
proof -
  let ?n = "\<lparr>ncols = ncols a,
             cells = map (\<lambda>r. map (\<lambda>x. repair (fl_div x (fmax_reduce r))) r) (cells a)\<rparr>"
  have val: "patient_normalise (NdArray a) = Inr ?n"
    using assms(2,3) by (rule patient_normalise_value)
  have sh: "shape ?n = shape a" by (simp add: shape_def nrows_def)
  have re: "rect ?n" using assms(1) by (simp add: rect_def list_all_iff)
  have rng: "\<exists>v. cells ?n ! i ! j = Fin v \<and> 0 \<le> v \<and> v \<le> 1"
    if i: "i < nrows a" and c: "fmax_reduce (cells a ! i) = Fin c" "0 < c" and j: "j < ncols a"
    for i c j
  proof -
    have len: "length (cells a ! i) = ncols a" using assms(1) i by (rule rect_row)
    then have ne: "cells a ! i \<noteq> []" using assms(2) by auto
    have mem: "cells a ! i ! j \<in> set (cells a ! i)" using len j by simp
    have b: "below c (cells a ! i ! j)" using c(1) ne mem by (rule below_fmax_reduce)
    have nn: "\<not> fl_lt (cells a ! i ! j) (Fin 0)" using assms(3) i mem by (rule no_negative_entry)
    have "\<exists>v. repair (fl_div (cells a ! i ! j) (Fin c)) = Fin v \<and> 0 \<le> v \<and> v \<le> 1"
      using b nn c(2) by (rule repair_unit)
    moreover have "cells ?n ! i ! j = repair (fl_div (cells a ! i ! j) (Fin c))"
      using i j len c(1) by (simp add: nrows_def)
    ultimately show ?thesis by simp
  qed
  show ?thesis using val sh re rng by blast
qed

text \<open>The theorem at a table of two patients and two days, the second row with a gap.\<close>

theorem patient_normalise_shape_range_witness:
  "rect table1 \<and> ncols table1 \<noteq> 0 \<and> no_negative table1 \<and>
   (\<exists>n. patient_normalise (NdArray table1) = Inr n \<and> shape n = shape table1 \<and> rect n \<and>
     (\<forall>i<nrows table1. \<forall>c. fmax_reduce (cells table1 ! i) = Fin c \<and> 0 < c \<longrightarrow>
        (\<forall>j<ncols table1. \<exists>v. cells n ! i ! j = Fin v \<and> 0 \<le> v \<and> v \<le> 1)))"
proof -
  have h1: "rect table1" by (simp add: table1_def rect_def)
  have h2: "ncols table1 \<noteq> 0" by (simp add: table1_def)
  have h3: "no_negative table1" by (simp add: table1_def no_negative_def)
  show ?thesis using h1 h2 h3 patient_normalise_shape_range [OF h1 h2 h3] by blast
qed

text \<open>
  A table of one patient and no day is rectangular and has no negative entry, and
  \<open>patient_normalise\<close> returns no table for it: \<open>np.nanmax\<close> raises.
\<close>

theorem patient_normalise_zero_columns:
  "rect \<lparr>ncols = 0, cells = [[]]\<rparr> \<and> no_negative \<lparr>ncols = 0, cells = [[]]\<rparr> \<and>
   patient_normalise (NdArray \<lparr>ncols = 0, cells = [[]]\<rparr>) =
     Inl (ValueError, ''zero-size array to reduction operation fmax which has no identity'')"
  by (simp add: rect_def no_negative_def patient_normalise_def nanmax_axis1_def)

subsection \<open>Negative entries\<close>

text \<open>
  Claim C2, as the code has it. A table with a negative entry makes \<open>patient_normalise\<close>
  raise \<open>ValueError\<close>, whatever else the table holds and whatever its shape; the message is
  the source's, \<open>Inflammation values should not be negative\<close>. The check comes first: in
  the store nothing has been allocated or written when the exception is raised.
\<close>

theorem patient_normalise_negative:
  assumes "r \<in> set (cells a)" "x \<in> set r" "fl_lt x (Fin 0)"
  shows "patient_normalise (NdArray a) =
       Inl (ValueError, ''Inflammation values should not be negative'') \<and>
     (h ! data = a \<longrightarrow>
        patient_normalise_st h data =
          (Inl (ValueError, ''Inflammation values should not be negative''), h))"
proof -
  have "list_ex (list_ex (\<lambda>x. fl_lt x (Fin 0))) (cells a)"
    using assms by (auto simp: list_ex_iff)
  then show ?thesis by (simp add: patient_normalise_def patient_normalise_st_def)
qed

theorem patient_normalise_negative_witness:
  "[Fin 1, Fin (- 1)] \<in> set (cells table3) \<and> Fin (- 1) \<in> set [Fin 1, Fin (- 1)] \<and>
   fl_lt (Fin (- 1)) (Fin 0) \<and> [table3] ! 0 = table3 \<and>
   patient_normalise (NdArray table3) =
     Inl (ValueError, ''Inflammation values should not be negative'') \<and>
   patient_normalise_st [table3] 0 =
     (Inl (ValueError, ''Inflammation values should not be negative''), [table3])"
proof -
  have h1: "[Fin 1, Fin (- 1)] \<in> set (cells table3)" by (simp add: table3_def)
  have h2: "Fin (- 1) \<in> set [Fin 1, Fin (- 1)]" by simp
  have h3: "fl_lt (Fin (- 1)) (Fin 0)" by simp
  have h4: "[table3] ! 0 = table3" by simp
  show ?thesis
    using h1 h2 h3 h4 patient_normalise_negative [OF h1 h2 h3, of "[table3]" 0] by blast
qed

text \<open>The message of the exception is not the one the claim quotes.\<close>

theorem patient_normalise_negative_message:
  "patient_normalise (NdArray \<lparr>ncols = 2, cells = [[Fin 1, Fin (- 1)], [Fin 2, Fin 3]]\<rparr>) \<noteq>
     Inl (ValueError, ''values must not be negative'')"
  by (simp add: patient_normalise_def)

subsection \<open>Inputs that are not arrays\<close>

text \<open>
  Claim C3, as the code has it. An input that is not an \<open>ndarray\<close> never gets a result:
  the call raises. The comparison with zero runs before the type check, so what is raised
  follows from it. When evaluating \<open>np.any(data < 0)\<close> raises, that exception is what the
  caller gets; for a list, a string and \<open>None\<close> it is Python's \<open>TypeError\<close>. When it is
  true, as for a negative number, the call raises \<open>ValueError\<close> with the message for
  negative values. When it is false, the call raises the \<open>TypeError\<close> of the type check.
\<close>

theorem patient_normalise_not_ndarray:
  assumes "\<not> isinstance_ndarray data"
  shows "(\<exists>e. patient_normalise data = Inl e) \<and>
     (\<forall>e. any_lt_zero data = Inl e \<longrightarrow> patient_normalise data = Inl e) \<and>
     (any_lt_zero data = Inr True \<longrightarrow>
        patient_normalise data =
          Inl (ValueError, ''Inflammation values should not be negative'')) \<and>
     (any_lt_zero data = Inr False \<longrightarrow>
        patient_normalise data =
          Inl (TypeError, ''Inflammation data should be an Numpy nd-array'')) \<and>
     (\<forall>x. data = PyNumber x \<longrightarrow> any_lt_zero data = Inr (fl_lt x (Fin 0))) \<and>
     (data = PyNone \<or> (\<exists>s. data = PyStr s) \<or> (\<exists>xs. data = PyList xs) \<longrightarrow>
        (\<exists>m. patient_normalise data = Inl (TypeError, m)))"
proof (cases data)
  case (NdArray a)
  then show ?thesis using assms by simp
next
  case (PyNumber x)
  then show ?thesis by (cases "fl_lt x (Fin 0)") (simp_all add: patient_normalise_def)
next
  case (PyList xs)
  then show ?thesis by (simp add: patient_normalise_def)
next
  case (PyStr s)
  then show ?thesis by (simp add: patient_normalise_def)
next
  case PyNone
  then show ?thesis by (simp add: patient_normalise_def)
next
  case (PyObject outcome)
  show ?thesis
  proof (cases outcome)
    case (Inl e)
    then show ?thesis using PyObject by (simp add: patient_normalise_def)
  next
    case (Inr b)
    then show ?thesis using PyObject by (cases b) (simp_all add: patient_normalise_def)
  qed
qed

text \<open>The number 3 is not an array and is not negative: the type check raises.\<close>

theorem patient_normalise_not_ndarray_witness:
  "\<not> isinstance_ndarray (PyNumber (Fin 3)) \<and>
   patient_normalise (PyNumber (Fin 3)) =
     Inl (TypeError, ''Inflammation data should be an Numpy nd-array'')"
  using patient_normalise_not_ndarray [of "PyNumber (Fin 3)"] by simp

text \<open>
  Two objects of other kinds: one whose comparison raises an exception of its own, and
  one that compares elementwise and holds a negative entry.
\<close>

lemma patient_normalise_other_objects:
  "patient_normalise (PyObject (Inl (OtherException ''InvalidOperation'', ''''))) =
     Inl (OtherException ''InvalidOperation'', '''')"
  "patient_normalise (PyObject (Inr True)) =
     Inl (ValueError, ''Inflammation values should not be negative'')"
  by (simp_all add: patient_normalise_def)

text \<open>The number \<open>-1\<close> is not an \<open>ndarray\<close>, and the exception is a \<open>ValueError\<close>.\<close>

theorem patient_normalise_negative_number:
  "\<not> isinstance_ndarray (PyNumber (Fin (- 1))) \<and>
   patient_normalise (PyNumber (Fin (- 1))) =
     Inl (ValueError, ''Inflammation values should not be negative'') \<and>
   fst (ValueError, ''Inflammation values should not be negative'') \<noteq> TypeError"
  by (simp add: patient_normalise_def)

subsection \<open>Degenerate rows\<close>

lemma zn_fmax:
  "(a = Fin 0 \<or> a = NaN) \<Longrightarrow> (b = Fin 0 \<or> b = NaN) \<Longrightarrow> fmax a b = Fin 0 \<or> fmax a b = NaN"
  by auto

lemma zn_foldl_fmax:
  "(a = Fin 0 \<or> a = NaN) \<Longrightarrow> (\<forall>x\<in>set xs. x = Fin 0 \<or> x = NaN) \<Longrightarrow>
   foldl fmax a xs = Fin 0 \<or> foldl fmax a xs = NaN"
proof (induction xs arbitrary: a)
  case Nil
  then show ?case by simp
next
  case (Cons y ys)
  have y: "y = Fin 0 \<or> y = NaN" using Cons.prems(2) by simp
  have "fmax a y = Fin 0 \<or> fmax a y = NaN" using Cons.prems(1) y by (rule zn_fmax)
  moreover have "\<forall>x\<in>set ys. x = Fin 0 \<or> x = NaN" using Cons.prems(2) by simp
  ultimately have "foldl fmax (fmax a y) ys = Fin 0 \<or> foldl fmax (fmax a y) ys = NaN"
    by (rule Cons.IH)
  then show ?case by simp
qed

lemma zn_fmax_reduce:
  assumes "r \<noteq> []" "\<forall>x\<in>set r. x = Fin 0 \<or> x = NaN"
  shows "fmax_reduce r = Fin 0 \<or> fmax_reduce r = NaN"
proof -
  obtain a xs where r: "r = a # xs" using assms(1) by (cases r) auto
  have "a = Fin 0 \<or> a = NaN" "\<forall>x\<in>set xs. x = Fin 0 \<or> x = NaN" using assms(2) r by auto
  then have "foldl fmax a xs = Fin 0 \<or> foldl fmax a xs = NaN" by (rule zn_foldl_fmax)
  then show ?thesis using r by (simp add: fmax_reduce_def)
qed

lemma fl_div_zn:
  "(x = Fin 0 \<or> x = NaN) \<Longrightarrow> (m = Fin 0 \<or> m = NaN) \<Longrightarrow> fl_div x m = NaN"
  by auto

lemma repair_zn:
  "(x = Fin 0 \<or> x = NaN) \<Longrightarrow> (m = Fin 0 \<or> m = NaN) \<Longrightarrow> repair (fl_div x m) = Fin 0"
  by (auto simp: repair_def)

text \<open>
  Claim C5, as the code has it. In a rectangular table with at least one column and no
  negative entry, take a row that is zero throughout or not-a-number throughout. Every
  quotient of that row by its maximum is not-a-number, and the row of the result is zero
  throughout. A table with no column has only such rows and gets no result, as the last
  instance below shows.
\<close>

theorem patient_normalise_degenerate_rows:
  assumes "rect a" "ncols a \<noteq> 0" "no_negative a"
  shows "\<exists>ms n. nanmax_axis1 a = Inr ms \<and> patient_normalise (NdArray a) = Inr n \<and>
     (\<forall>i<nrows a. list_all (\<lambda>x. x = Fin 0) (cells a ! i) \<or> list_all isnan (cells a ! i) \<longrightarrow>
        cells (divide_rows a ms) ! i = replicate (ncols a) NaN \<and>
        cells n ! i = replicate (ncols a) (Fin 0))"
proof -
  let ?ms = "map fmax_reduce (cells a)"
  let ?n = "\<lparr>ncols = ncols a,
             cells = map (\<lambda>r. map (\<lambda>x. repair (fl_div x (fmax_reduce r))) r) (cells a)\<rparr>"
  have mx: "nanmax_axis1 a = Inr ?ms" using assms(2) by (simp add: nanmax_axis1_def)
  have val: "patient_normalise (NdArray a) = Inr ?n"
    using assms(2,3) by (rule patient_normalise_value)
  have row: "cells (divide_rows a ?ms) ! i = replicate (ncols a) NaN \<and>
             cells ?n ! i = replicate (ncols a) (Fin 0)"
    if i: "i < nrows a"
      and d: "list_all (\<lambda>x. x = Fin 0) (cells a ! i) \<or> list_all isnan (cells a ! i)"
    for i
  proof -
    let ?r = "cells a ! i"
    have len: "length ?r = ncols a" using assms(1) i by (rule rect_row)
    then have ne: "?r \<noteq> []" using assms(2) by auto
    have nan: "isnan x \<Longrightarrow> x = NaN" for x by (cases x) auto
    have zn: "\<forall>x\<in>set ?r. x = Fin 0 \<or> x = NaN" using d nan by (auto simp: list_all_iff)
    have m: "fmax_reduce ?r = Fin 0 \<or> fmax_reduce ?r = NaN" using ne zn by (rule zn_fmax_reduce)
    have q: "map (\<lambda>x. fl_div x (fmax_reduce ?r)) ?r = replicate (length ?r) NaN"
      using zn m by (simp add: map_replicate_const [symmetric] fl_div_zn cong: map_cong)
    have z: "map (\<lambda>x. repair (fl_div x (fmax_reduce ?r))) ?r = replicate (length ?r) (Fin 0)"
      using zn m by (simp add: map_replicate_const [symmetric] repair_zn cong: map_cong)
    have "cells (divide_rows a ?ms) ! i = map (\<lambda>x. fl_div x (fmax_reduce ?r)) ?r"
      using i by (simp add: divide_rows_nanmax nrows_def)
    moreover have "cells ?n ! i = map (\<lambda>x. repair (fl_div x (fmax_reduce ?r))) ?r"
      using i by (simp add: nrows_def)
    ultimately show ?thesis using q z len by simp
  qed
  show ?thesis using mx val row by blast
qed

text \<open>The theorem at a table with a zero row, a row of gaps and an ordinary row.\<close>

theorem patient_normalise_degenerate_rows_witness:
  "rect table2 \<and> ncols table2 \<noteq> 0 \<and> no_negative table2 \<and>
   (\<exists>ms n. nanmax_axis1 table2 = Inr ms \<and> patient_normalise (NdArray table2) = Inr n \<and>
     (\<forall>i<nrows table2.
        list_all (\<lambda>x. x = Fin 0) (cells table2 ! i) \<or> list_all isnan (cells table2 ! i) \<longrightarrow>
        cells (divide_rows table2 ms) ! i = replicate (ncols table2) NaN \<and>
        cells n ! i = replicate (ncols table2) (Fin 0)))"
proof -
  have h1: "rect table2" by (simp add: table2_def rect_def)
  have h2: "ncols table2 \<noteq> 0" by (simp add: table2_def)
  have h3: "no_negative table2" by (simp add: table2_def no_negative_def)
  show ?thesis using h1 h2 h3 patient_normalise_degenerate_rows [OF h1 h2 h3] by blast
qed

lemma table2_value:
  "patient_normalise (NdArray table2) =
     Inr \<lparr>ncols = 2, cells = [[Fin 0, Fin 0], [Fin 0, Fin 0], [Fin (1 / 4), Fin 1]]\<rparr>"
  by (simp add: table2_def patient_normalise_def nanmax_axis1_def fmax_reduce_def divide_rows_def
      set_where_def)

text \<open>
  In a table of two patients and no day the first row is zero throughout, with nothing in
  it, and \<open>patient_normalise\<close> raises instead of giving a row.
\<close>

theorem patient_normalise_empty_rows:
  "rect \<lparr>ncols = 0, cells = [[], []]\<rparr> \<and> no_negative \<lparr>ncols = 0, cells = [[], []]\<rparr> \<and>
   list_all (\<lambda>x. x = Fin 0) (cells \<lparr>ncols = 0, cells = [[], []]\<rparr> ! 0) \<and>
   patient_normalise (NdArray \<lparr>ncols = 0, cells = [[], []]\<rparr>) =
     Inl (ValueError, ''zero-size array to reduction operation fmax which has no identity'')"
  by (simp add: rect_def no_negative_def patient_normalise_def nanmax_axis1_def)

subsection \<open>The input is left as it was\<close>

text \<open>
  Claim C4. Whatever the store holds, after the call the array at \<open>data\<close> and every other
  array that existed before are what they were. When the call returns, the address it
  returns is not one of the store before the call, so it is not \<open>data\<close>; it is the one
  array the call allocated, and that array is the table \<open>patient_normalise\<close> computes. When
  the call raises, the store is unchanged.
\<close>

theorem patient_normalise_st_frame:
  assumes "data < length h"
  shows "case patient_normalise_st h data of
     (res, h') \<Rightarrow>
       take (length h) h' = h \<and> h' ! data = h ! data \<and>
       (case res of
          Inl e \<Rightarrow> h' = h \<and> patient_normalise (NdArray (h ! data)) = Inl e
        | Inr r \<Rightarrow> length h \<le> r \<and> r \<noteq> data \<and> length h' = Suc (length h) \<and>
                  patient_normalise (NdArray (h ! data)) = Inr (h' ! r))"
proof (cases "list_ex (list_ex (\<lambda>x. fl_lt x (Fin 0))) (cells (h ! data))")
  case True
  then show ?thesis by (simp add: patient_normalise_st_def patient_normalise_def)
next
  case neg: False
  show ?thesis
  proof (cases "nanmax_axis1 (h ! data)")
    case (Inl e)
    then show ?thesis using neg by (simp add: patient_normalise_st_def patient_normalise_def)
  next
    case (Inr max_val)
    then show ?thesis using neg assms
      by (simp add: patient_normalise_st_def patient_normalise_def Let_def nth_append)
  qed
qed

text \<open>A store of one table: the call returns the address 1 and leaves the table at 0.\<close>

theorem patient_normalise_st_frame_witness:
  "(0::nat) < length [table1] \<and>
   patient_normalise_st [table1] 0 =
     (Inr 1, [table1, \<lparr>ncols = 2, cells = [[Fin (1 / 2), Fin 1], [Fin 0, Fin 0]]\<rparr>]) \<and>
   (case patient_normalise_st [table1] 0 of
     (res, h') \<Rightarrow>
       take (length [table1]) h' = [table1] \<and> h' ! 0 = [table1] ! 0 \<and>
       (case res of
          Inl e \<Rightarrow> h' = [table1] \<and> patient_normalise (NdArray ([table1] ! 0)) = Inl e
        | Inr r \<Rightarrow> length [table1] \<le> r \<and> r \<noteq> 0 \<and> length h' = Suc (length [table1]) \<and>
                  patient_normalise (NdArray ([table1] ! 0)) = Inr (h' ! r)))"
proof -
  have h: "(0::nat) < length [table1]" by simp
  have v: "patient_normalise_st [table1] 0 =
     (Inr 1, [table1, \<lparr>ncols = 2, cells = [[Fin (1 / 2), Fin 1], [Fin 0, Fin 0]]\<rparr>])"
    by (simp add: patient_normalise_st_def table1_def nanmax_axis1_def fmax_reduce_def
        divide_rows_def set_where_def)
  show ?thesis using h v patient_normalise_st_frame [OF h] by blast
qed

section \<open>Daily statistics\<close>














section \<open>Days above a threshold\<close>

lemma foldl_plus: "foldl (\<lambda>x y. x + y) (a::int) xs = a + sum_list xs"
  by (induction xs arbitrary: a) simp_all

lemma reduce_count:
  assumes "row \<noteq> []"
  shows "reduce (\<lambda>x y. x + y) (map (\<lambda>x. if x then 1 else 0) (map p row)) =
         Inr (int (length (filter p row)))"
proof -
  have s: "sum_list (map (\<lambda>x. if x then 1 else 0) (map p r)) = int (length (filter p r))" for r
    by (induction r) simp_all
  obtain x xs where r: "row = x # xs" using assms by (cases row) auto
  have "reduce (\<lambda>x y. x + y) (map (\<lambda>x. if x then 1 else 0) (map p (x # xs))) =
        Inr ((if p x then 1 else 0) + sum_list (map (\<lambda>x. if x then 1 else 0) (map p xs)))"
    by (simp add: foldl_plus)
  then show ?thesis unfolding r s by simp
qed

lemma getitem_valid:
  assumes "- int (nrows a) \<le> i" "i < int (nrows a)"
  shows "getitem a i = Inr (cells a ! nat (if i < 0 then i + int (nrows a) else i))"
    and "nat (if i < 0 then i + int (nrows a) else i) < nrows a"
  using assms by (auto simp: getitem_def Let_def)

lemma list_map_gt:
  "as_float64 t = Inr v \<Longrightarrow> list_map (\<lambda>x. gt x t) row = Inr (map (\<lambda>x. fl_gt x v) row)"
  by (induction row) (simp_all add: gt_def)

lemma float64_of_int_exact: "\<bar>n\<bar> \<le> 2 ^ 53 \<Longrightarrow> float64_of_int n = Inr (Fin (of_int n))"
  by (simp add: float64_of_int_def)

text \<open>
  Claim C7, as the code has it. Take a rectangular table of float64 entries with at least
  one column, an index that addresses a row (from the front, or from the back when
  negative) and a threshold that is a float, or an int that float64 represents exactly, so
  that the conversion leaves its value as it is. Then \<open>daily_above_threshold\<close> returns the
  number of entries of that row that are greater than the threshold; no value is greater
  than itself, so an entry equal to the threshold is not counted. Every float and every
  int of magnitude up to \<open>2 ^ 53\<close> is such a threshold. With no column the call raises, as
  the instance after the next theorem shows.
\<close>

theorem daily_above_threshold_count:
  assumes "rect a" "ncols a \<noteq> 0" "- int (nrows a) \<le> i" "i < int (nrows a)"
    and "as_float64 t = Inr (exact_value t)"
  shows "daily_above_threshold a i t =
     Inr (int (length (filter (\<lambda>x. fl_gt x (exact_value t))
                 (cells a ! nat (if i < 0 then i + int (nrows a) else i))))) \<and>
     \<not> fl_gt (exact_value t) (exact_value t) \<and>
     (\<forall>f. as_float64 (PyFloat f) = Inr (exact_value (PyFloat f))) \<and>
     (\<forall>n. \<bar>n\<bar> \<le> 2 ^ 53 \<longrightarrow> as_float64 (PyInt n) = Inr (exact_value (PyInt n)))"
proof -
  let ?row = "cells a ! nat (if i < 0 then i + int (nrows a) else i)"
  let ?v = "exact_value t"
  have g: "getitem a i = Inr ?row" using assms(3,4) by (rule getitem_valid(1))
  have "length ?row = ncols a" using assms(1) getitem_valid(2) [OF assms(3,4)] by (rule rect_row)
  then have ne: "?row \<noteq> []" using assms(2) by auto
  have irr: "\<not> fl_gt ?v ?v" by (cases ?v) (simp_all add: fl_gt_def)
  have m: "list_map (\<lambda>x. gt x t) ?row = Inr (map (\<lambda>x. fl_gt x ?v) ?row)"
    using assms(5) by (rule list_map_gt)
  have count: "daily_above_threshold a i t =
     Inr (int (length (filter (\<lambda>x. fl_gt x ?v) ?row)))"
    using reduce_count [OF ne] g m by (simp add: daily_above_threshold_def)
  have fl: "\<forall>f. as_float64 (PyFloat f) = Inr (exact_value (PyFloat f))" by simp
  have "\<forall>n. \<bar>n\<bar> \<le> 2 ^ 53 \<longrightarrow> as_float64 (PyInt n) = Inr (exact_value (PyInt n))"
    by (simp add: float64_of_int_exact)
  then show ?thesis using count irr fl by blast
qed

text \<open>Row 0 of the table of rows 1, 5, 9 and 2, 2, 2, threshold 3: two days.\<close>

theorem daily_above_threshold_count_witness:
  "rect table5 \<and> ncols table5 \<noteq> 0 \<and> - int (nrows table5) \<le> 0 \<and> 0 < int (nrows table5) \<and>
   as_float64 (PyInt 3) = Inr (exact_value (PyInt 3)) \<and>
   daily_above_threshold table5 0 (PyInt 3) = Inr 2"
proof -
  have h1: "rect table5" by (simp add: table5_def rect_def)
  have h2: "ncols table5 \<noteq> 0" by (simp add: table5_def)
  have h3: "- int (nrows table5) \<le> 0" by (simp add: table5_def nrows_def)
  have h4: "0 < int (nrows table5)" by (simp add: table5_def nrows_def)
  have h5: "as_float64 (PyInt 3) = Inr (exact_value (PyInt 3))"
    by (simp add: float64_of_int_def)
  have "daily_above_threshold table5 0 (PyInt 3) =
     Inr (int (length (filter (\<lambda>x. fl_gt x (exact_value (PyInt 3)))
                 (cells table5 ! nat (if (0::int) < 0 then 0 + int (nrows table5) else 0)))))"
    using daily_above_threshold_count [OF h1 h2 h3 h4 h5] by (rule conjunct1)
  then have "daily_above_threshold table5 0 (PyInt 3) = Inr 2"
    by (simp add: table5_def fl_gt_def)
  then show ?thesis using h1 h2 h3 h4 h5 by simp
qed

lemma daily_above_threshold_equal: "daily_above_threshold table5 0 (PyInt 9) = Inr 0"
  by (simp add: daily_above_threshold_def getitem_def table5_def nrows_def fl_gt_def gt_def
      float64_of_int_def)

text \<open>
  An int threshold beyond \<open>2 ^ 53\<close> is compared by its float64 value: \<open>2 ^ 53 + 3\<close> lies
  midway between two float64 values and goes to \<open>2 ^ 53 + 4\<close>, so an entry \<open>2 ^ 53 + 4\<close> is
  not above it.
\<close>

lemma bitlen_example: "bitlen 9007199254740995 = 54"
  by code_simp

lemma float64_of_int_tie: "float64_of_int 9007199254740995 = Inr (Fin 9007199254740996)"
  by (simp add: float64_of_int_def bitlen_example)

lemma daily_above_threshold_converted:
  "daily_above_threshold \<lparr>ncols = 1, cells = [[Fin 9007199254740996]]\<rparr> 0
     (PyInt 9007199254740995) = Inr 0"
  by (simp add: daily_above_threshold_def getitem_def nrows_def gt_def float64_of_int_tie
      fl_gt_def)

text \<open>
  One patient and no day: the index 0 addresses the row, none of its entries is above the
  threshold, and the call raises \<open>TypeError\<close> instead of returning 0.
\<close>

theorem daily_above_threshold_no_columns:
  "rect \<lparr>ncols = 0, cells = [[]]\<rparr> \<and>
   getitem \<lparr>ncols = 0, cells = [[]]\<rparr> 0 = Inr [] \<and>
   daily_above_threshold \<lparr>ncols = 0, cells = [[]]\<rparr> 0 (PyInt 3) =
     Inl (TypeError, ''reduce() of empty iterable with no initial value'')"
  by (simp add: rect_def nrows_def daily_above_threshold_def getitem_def)

text \<open>
  Claim C10. For a rectangular table with no column and an index that addresses a row,
  \<open>daily_above_threshold\<close> raises \<open>TypeError\<close>: the row is empty, and \<open>reduce\<close> has no initial
  value to return.
\<close>

theorem daily_above_threshold_empty_row:
  assumes "rect a" "ncols a = 0" "- int (nrows a) \<le> i" "i < int (nrows a)"
  shows "daily_above_threshold a i t =
     Inl (TypeError, ''reduce() of empty iterable with no initial value'')"
proof -
  let ?row = "cells a ! nat (if i < 0 then i + int (nrows a) else i)"
  have g: "getitem a i = Inr ?row" using assms(3,4) by (rule getitem_valid(1))
  have "length ?row = ncols a" using assms(1) getitem_valid(2) [OF assms(3,4)] by (rule rect_row)
  then have "?row = []" using assms(2) by simp
  then show ?thesis using g by (simp add: daily_above_threshold_def)
qed

theorem daily_above_threshold_empty_row_witness:
  "rect \<lparr>ncols = 0, cells = [[], []]\<rparr> \<and> ncols \<lparr>ncols = 0, cells = [[], []]\<rparr> = 0 \<and>
   - int (nrows \<lparr>ncols = 0, cells = [[], []]\<rparr>) \<le> 1 \<and>
   1 < int (nrows \<lparr>ncols = 0, cells = [[], []]\<rparr>) \<and>
   daily_above_threshold \<lparr>ncols = 0, cells = [[], []]\<rparr> 1 (PyInt 0) =
     Inl (TypeError, ''reduce() of empty iterable with no initial value'')"
proof -
  let ?a = "\<lparr>ncols = 0, cells = [[], []]\<rparr>"
  have h1: "rect ?a" by (simp add: rect_def)
  have h2: "ncols ?a = 0" by simp
  have h3: "- int (nrows ?a) \<le> 1" by (simp add: nrows_def)
  have h4: "1 < int (nrows ?a)" by (simp add: nrows_def)
  show ?thesis using h1 h2 h3 h4 daily_above_threshold_empty_row [OF h1 h2 h3 h4] by blast
qed

section \<open>Patients and doctors\<close>

text \<open>
  Claim C8. With no day given, the observation gets day 0 when the patient has none, and
  otherwise the day of the last one plus one; it carries the value, is the last of the
  patient's observations, all earlier ones in place, and is what the method returns. A new
  patient's first two observations get the days 0 and 1.
\<close>

theorem add_observation_day:
  "(case add_observation p v None of
      (ob, p') \<Rightarrow>
        day ob = (if observations p = [] then 0 else day (last (observations p)) + 1) \<and>
        value ob = v \<and> observations p' = observations p @ [ob] \<and> name p' = name p) \<and>
   (case add_observation (Patient n) v1 None of
      (ob1, p1) \<Rightarrow>
        day ob1 = 0 \<and>
        (case add_observation p1 v2 None of
           (ob2, p2) \<Rightarrow> day ob2 = 1 \<and> observations p2 = [ob1, ob2]))"
  by (cases "observations p") (simp_all add: add_observation_def Patient_def Let_def)

text \<open>A patient whose last observation is of day 7 gets one of day 8.\<close>

theorem add_observation_day_witness:
  "add_observation \<lparr>name = ''Ann'', observations = [\<lparr>day = 7, value = (2::real)\<rparr>]\<rparr> 5 None =
     (\<lparr>day = 8, value = 5\<rparr>,
      \<lparr>name = ''Ann'', observations = [\<lparr>day = 7, value = 2\<rparr>, \<lparr>day = 8, value = 5\<rparr>]\<rparr>)"
  using add_observation_day
    [where p = "\<lparr>name = ''Ann'', observations = [\<lparr>day = 7, value = (2::real)\<rparr>]\<rparr>" and v = 5
      and n = "''Ann''" and ?v1.0 = 0 and ?v2.0 = 0]
  by (simp add: add_observation_def Let_def)

lemma count_list_distinct: "distinct xs \<Longrightarrow> x \<in> set xs \<Longrightarrow> count_list xs x = 1"
  by (induction xs) auto

lemma count_list_notin: "x \<notin> set xs \<Longrightarrow> count_list xs x = 0"
  by (induction xs) auto

lemma doctor_inv_init: "doctor_inv (Doctor n) w"
  by (simp add: doctor_inv_def Doctor_def)

lemma add_patient_inv:
  assumes "doctor_inv d w" "arg_ok a w"
  shows "case add_patient d a w of
     ((r, d'), w') \<Rightarrow> doctor_inv d' w' \<and> length (heap w) \<le> length (heap w')"
proof (cases a)
  case (Instance p)
  then show ?thesis using assms
    by (auto simp: add_patient_def doctor_inv_def arg_ok_def)
next
  case (Other n)
  have "length (heap w) \<notin> set (patients d)"
    using assms(1) by (auto simp: doctor_inv_def list_all_iff)
  then show ?thesis using assms Other
    by (auto simp: add_patient_def doctor_inv_def list_all_iff less_Suc_eq)
qed

lemma add_patient_twice:
  assumes "doctor_inv d w" "p < length (heap w)"
  shows "case add_patient d (Instance p) w of
     ((r1, d1), w1) \<Rightarrow>
       (case add_patient d1 (Instance p) w1 of
          ((r2, d2), w2) \<Rightarrow>
            count_list (patients d2) p = 1 \<and> r2 = None \<and> d2 = d1 \<and> heap w2 = heap w1 \<and>
            stdout w2 = stdout w1 @
              [''Patient with name '' @ name (heap w ! p) @ '' already in Doctor '' @
               name d @ '''s list.''])"
proof (cases "p \<in> set (patients d)")
  case True
  then have "count_list (patients d) p = 1"
    using assms(1) by (simp add: doctor_inv_def count_list_distinct)
  then show ?thesis using True by (simp add: add_patient_def str_def)
next
  case False
  then have "count_list (patients d) p = 0" by (rule count_list_notin)
  then show ?thesis using False by (simp add: add_patient_def str_def)
qed

text \<open>
  Claim C9. A new doctor holds no patient twice, and \<open>add_patient\<close> keeps it so, whatever
  it is given. Adding the same \<open>Patient\<close> instance twice leaves the doctor with exactly one
  reference to it: the second call returns \<open>None\<close>, changes neither the doctor nor the
  heap, and prints one line that names the patient and the doctor.
\<close>

theorem add_patient_no_duplicates:
  "doctor_inv (Doctor n) w \<and>
   (doctor_inv d w \<and> arg_ok a w \<longrightarrow>
      (case add_patient d a w of
         ((r, d'), w') \<Rightarrow> doctor_inv d' w' \<and> length (heap w) \<le> length (heap w'))) \<and>
   (doctor_inv d w \<and> p < length (heap w) \<longrightarrow>
      (case add_patient d (Instance p) w of
         ((r1, d1), w1) \<Rightarrow>
           (case add_patient d1 (Instance p) w1 of
              ((r2, d2), w2) \<Rightarrow>
                count_list (patients d2) p = 1 \<and> r2 = None \<and> d2 = d1 \<and> heap w2 = heap w1 \<and>
                stdout w2 = stdout w1 @
                  [''Patient with name '' @ name (heap w ! p) @ '' already in Doctor '' @
                   name d @ '''s list.''])))"
proof (intro conjI impI)
  show "doctor_inv (Doctor n) w" by (rule doctor_inv_init)
next
  assume "doctor_inv d w \<and> arg_ok a w"
  then have "doctor_inv d w" "arg_ok a w" by simp_all
  then show "case add_patient d a w of
         ((r, d'), w') \<Rightarrow> doctor_inv d' w' \<and> length (heap w) \<le> length (heap w')"
    by (rule add_patient_inv)
next
  assume "doctor_inv d w \<and> p < length (heap w)"
  then have "doctor_inv d w" "p < length (heap w)" by simp_all
  then show "case add_patient d (Instance p) w of
         ((r1, d1), w1) \<Rightarrow>
           (case add_patient d1 (Instance p) w1 of
              ((r2, d2), w2) \<Rightarrow>
                count_list (patients d2) p = 1 \<and> r2 = None \<and> d2 = d1 \<and> heap w2 = heap w1 \<and>
                stdout w2 = stdout w1 @
                  [''Patient with name '' @ name (heap w ! p) @ '' already in Doctor '' @
                   name d @ '''s list.''])"
    by (rule add_patient_twice)
qed

text \<open>Doctor Bob, given patient Alice twice.\<close>

theorem add_patient_no_duplicates_witness:
  "doctor_inv (Doctor ''Bob'') world1 \<and> arg_ok (Instance 0) world1 \<and>
   0 < length (heap world1) \<and>
   (case add_patient (Doctor ''Bob'') (Instance 0) world1 of
      ((r1, d1), w1) \<Rightarrow>
        patients d1 = [0] \<and> r1 = Some 0 \<and>
        (case add_patient d1 (Instance 0) w1 of
           ((r2, d2), w2) \<Rightarrow>
             count_list (patients d2) 0 = 1 \<and> r2 = None \<and> d2 = d1 \<and>
             stdout w2 = [''Patient with name Alice already in Doctor Bob'' @ '''s list.'']))"
proof -
  have h1: "doctor_inv (Doctor ''Bob'') world1" by (simp add: doctor_inv_def Doctor_def)
  have h2: "arg_ok (Instance 0) world1" by (simp add: arg_ok_def world1_def)
  have h3: "0 < length (heap world1)" by (simp add: world1_def)
  have first: "add_patient (Doctor ''Bob'') (Instance 0) world1 =
     ((Some 0, \<lparr>name = ''Bob'', patients = [0]\<rparr>), world1)"
    by (simp add: add_patient_def Doctor_def)
  have "case add_patient (Doctor ''Bob'') (Instance 0) world1 of
      ((r1, d1), w1) \<Rightarrow>
        (case add_patient d1 (Instance 0) w1 of
           ((r2, d2), w2) \<Rightarrow>
             count_list (patients d2) 0 = 1 \<and> r2 = None \<and> d2 = d1 \<and> heap w2 = heap w1 \<and>
             stdout w2 = stdout w1 @
               [''Patient with name '' @ name (heap world1 ! 0) @ '' already in Doctor '' @
                name (Doctor ''Bob'') @ '''s list.''])"
    using add_patient_no_duplicates
      [where d = "Doctor ''Bob''" and w = world1 and p = 0 and n = "''Bob''" and a = "Instance 0"]
      h1 h2 h3 by simp
  then show ?thesis using h1 h2 h3 unfolding first
    by (simp add: world1_def Patient_def Doctor_def split: prod.splits)
qed

end
